theory Spec2Isabelle
  imports Complex_Main "HOL-Library.Sublist" "HOL-Library.Log_Nat"
begin

section \<open>Numbers\<close>

text \<open>
  The scores of \<^verbatim>\<open>backend/api.py\<close> are Python numbers: \<^verbatim>\<open>rule_score\<close> is an
  unbounded Python integer, the other scores are floats, that is IEEE 754 binary64
  numbers. A float is kept here as the rational number it is, and every float operation
  gives the exactly computed result rounded to the nearest binary64 number, ties to the
  even significand, as the hardware does. Infinities and NaN are not modelled: \<open>fl\<close>
  has no largest exponent, so a result beyond the largest float stays finite here.

  \<open>ilog2 x\<close> is the position of the leading bit of \<open>x \<noteq> 0\<close>: the integer \<open>e\<close>
  with \<open>2 powi e \<le> \<bar>x\<bar> < 2 powi (e + 1)\<close>. The exponent of a float is at least \<open>-1022\<close>
  (below that the numbers are subnormal), and its significand has 53 bits, so the
  floats next to \<open>x\<close> are the multiples of \<open>2\<close> to the power \<open>fl_exp x - 52\<close>.
\<close>

definition round_half_even :: "rat \<Rightarrow> int" where
  "round_half_even y =
     (let f = \<lfloor>y\<rfloor>; d = y - of_int f
      in if d < 1 / 2 then f
         else if 1 / 2 < d then f + 1
         else if even f then f else f + 1)"

definition ilog2 :: "rat \<Rightarrow> int" where
  "ilog2 x =
     (let (p, q) = quotient_of \<bar>x\<bar>;
          d = bitlen p - bitlen q
      in if 2 powi d \<le> \<bar>x\<bar> then d else d - 1)"

definition fl_exp :: "rat \<Rightarrow> int" where
  "fl_exp x = max (ilog2 x) (- 1022)"

definition fl :: "rat \<Rightarrow> rat" where
  "fl x =
     (let e = fl_exp x - 52
      in of_int (round_half_even (x / 2 powi e)) * 2 powi e)"

text \<open>
  \<^verbatim>\<open>round(x, 2)\<close> of a float: CPython rounds the exact value of \<open>x\<close> to a decimal
  with \<open>ndigits\<close> places, a tie going to the even last digit, and converts that decimal
  back to the nearest float.
\<close>

definition py_round :: "rat \<Rightarrow> nat \<Rightarrow> rat" where
  "py_round x ndigits = fl (of_int (round_half_even (x * 10 ^ ndigits)) / 10 ^ ndigits)"

section \<open>Score fusion\<close>

text \<open>
  Lines 111 to 119 of \<^verbatim>\<open>predict\<close>: the weighted sum, chosen by
  \<^verbatim>\<open>used_transcript\<close>, then \<^verbatim>\<open>final = round(final, 2)\<close>. A literal such as
  \<^verbatim>\<open>0.45\<close> is the float nearest to \<open>45 / 100\<close>; the integer
  \<^verbatim>\<open>rule_score\<close> is converted to a float before it is multiplied; the sum of three
  terms is added from the left; each product, difference and sum is rounded.
\<close>

definition final_score :: "bool \<Rightarrow> rat \<Rightarrow> int \<Rightarrow> rat \<Rightarrow> rat" where
  "final_score used_transcript ai_score rule_score sim_score =
     (let final =
        (if used_transcript
         then fl (fl (fl (ai_score * fl (45 / 100))
                      + fl (fl (of_int rule_score) * fl (25 / 100)))
                  + fl (fl (100 - sim_score) * fl (30 / 100)))
         else fl (fl (ai_score * fl (60 / 100))
                  + fl (fl (of_int rule_score) * fl (40 / 100))))
      in py_round final 2)"

text \<open>Lines 122 to 125: the classification level, highest threshold first.\<close>

definition risk_level :: "rat \<Rightarrow> string" where
  "risk_level final =
     (if 75 \<le> final then ''Very High''
      else if 60 \<le> final then ''High''
      else if 45 \<le> final then ''Medium''
      else ''Low'')"

section \<open>Strings\<close>

text \<open>
  A Python string is the list of its characters, a character being a \<open>char\<close> (one
  of 256 code points). Substring tests
  (\<^verbatim>\<open>word in t_lower\<close>), \<^verbatim>\<open>str.count\<close> of a one-character string
  (\<open>count_list\<close>), \<^verbatim>\<open>len\<close> and slicing (\<open>take\<close>) are list operations.
\<close>

fun str_contains :: "string \<Rightarrow> string \<Rightarrow> bool" where
  "str_contains [] w = (w = [])"
| "str_contains (c # s) w = (prefix w (c # s) \<or> str_contains s w)"

text \<open>
  \<^verbatim>\<open>str.strip()\<close> removes the whitespace at both ends. Whitespace is what
  \<^verbatim>\<open>str.isspace\<close> accepts; among the code points a \<open>char\<close> can hold these are
  9 to 13, 28 to 32, 133 and 160.
\<close>

definition is_space :: "char \<Rightarrow> bool" where
  "is_space c = (of_char c \<in> {9, 10, 11, 12, 13, 28, 29, 30, 31, 32, 133, 160 :: nat})"

definition py_strip :: "string \<Rightarrow> string" where
  "py_strip s = rev (dropWhile is_space (rev (dropWhile is_space s)))"

text \<open>\<^verbatim>\<open>" ".join(parts)\<close>\<close>

fun join_space :: "string list \<Rightarrow> string" where
  "join_space [] = []"
| "join_space [p] = p"
| "join_space (p # q # ps) = p @ '' '' @ join_space (q # ps)"

section \<open>The identifier extractor\<close>

text \<open>
  Each pattern of \<^verbatim>\<open>extract_id\<close> is a literal followed by one group
  \<^verbatim>\<open>([^c]+)\<close>: \<^verbatim>\<open>v=([^&]+)\<close>, \<^verbatim>\<open>youtu\.be/([^?]+)\<close> and
  \<^verbatim>\<open>shorts/([^?]+)\<close>. A pattern is kept as the pair of its literal and the
  excluded character. \<^verbatim>\<open>re.search\<close> takes the leftmost position where the literal
  stands and is followed by at least one character other than \<open>c\<close>; the group is
  greedy, so it captures the whole run of such characters.
\<close>

type_synonym pattern = "string \<times> char"

definition group_at :: "pattern \<Rightarrow> string \<Rightarrow> string" where
  "group_at p s = takeWhile (\<lambda>x. x \<noteq> snd p) (drop (length (fst p)) s)"

fun re_search :: "pattern \<Rightarrow> string \<Rightarrow> string option" where
  "re_search p [] = None"
| "re_search p (c # s) =
     (if prefix (fst p) (c # s) \<and> group_at p (c # s) \<noteq> []
      then Some (group_at p (c # s))
      else re_search p s)"

definition patterns :: "pattern list" where
  "patterns = [(''v='', CHR ''&''), (''youtu.be/'', CHR ''?''), (''shorts/'', CHR ''?'')]"

fun first_match :: "pattern list \<Rightarrow> string \<Rightarrow> string option" where
  "first_match [] url = None"
| "first_match (p # ps) url =
     (case re_search p url of Some g \<Rightarrow> Some g | None \<Rightarrow> first_match ps url)"

definition extract_id :: "string \<Rightarrow> string option" where
  "extract_id url = first_match patterns url"

section \<open>The collaborators\<close>

text \<open>
  What \<^verbatim>\<open>predict\<close> reaches outside the file is a parameter of the model, the
  environment:
  \<^item> \<open>ydl_extract_info\<close>: \<^verbatim>\<open>YoutubeDL.extract_info\<close>, \<open>None\<close> when it raises
    (the \<^verbatim>\<open>except\<close> of \<^verbatim>\<open>get_video_info\<close> catches every exception);
    otherwise the \<^verbatim>\<open>title\<close> and \<^verbatim>\<open>description\<close> entries of the info
    dictionary, each of which may be missing;
  \<^item> \<open>transcript_fetch\<close>: the chain \<^verbatim>\<open>list_transcripts\<close>,
    \<^verbatim>\<open>find_transcript(['en'])\<close>, \<^verbatim>\<open>fetch\<close>, giving the texts of the
    transcript's entries, \<open>None\<close> when any step raises;
  \<^item> \<open>classifier_score\<close>: the \<^verbatim>\<open>score\<close> of the classifier's first result, a
    float;
  \<^item> \<open>encode\<close> and \<open>cos_sim\<close>: the embedder and the cosine of two embeddings,
    converted to a float by \<^verbatim>\<open>float(sim[0][0])\<close>;
  \<^item> \<open>str_lower\<close>, \<open>str_isupper\<close> and \<open>re_digit\<close>: \<^verbatim>\<open>str.lower\<close>,
    \<^verbatim>\<open>str.isupper\<close> and the character class \<^verbatim>\<open>\d\<close>, which Python reads
    from its Unicode tables.
  The collaborators are functions, so the same argument gives the same answer. A
  classifier or embedder call that raises is not modelled: the source does not catch it.
\<close>

record video_info =
  info_title :: "string option"
  info_description :: "string option"

record 'v env =
  ydl_extract_info :: "string \<Rightarrow> video_info option"
  transcript_fetch :: "string \<Rightarrow> string list option"
  classifier_score :: "string \<Rightarrow> rat"
  encode :: "string \<Rightarrow> 'v"
  cos_sim :: "'v \<Rightarrow> 'v \<Rightarrow> rat"
  str_lower :: "string \<Rightarrow> string"
  str_isupper :: "string \<Rightarrow> bool"
  re_digit :: "char \<Rightarrow> bool"

text \<open>
  Every function that may call a collaborator returns, beside its value, the list of
  the calls it made, in order.
\<close>

datatype call =
  Extract_info string
  | Fetch_transcript string
  | Classify string
  | Encode string

definition get_video_info :: "'v env \<Rightarrow> string \<Rightarrow> (string option \<times> string option) \<times> call list" where
  "get_video_info env url =
     ((case ydl_extract_info env url of
         Some info \<Rightarrow> (info_title info, info_description info)
       | None \<Rightarrow> (None, None)),
      [Extract_info url])"

definition get_transcript :: "'v env \<Rightarrow> string \<Rightarrow> string option \<times> call list" where
  "get_transcript env video_id =
     ((case transcript_fetch env video_id of
         Some data \<Rightarrow> Some (join_space data)
       | None \<Rightarrow> None),
      [Fetch_transcript video_id])"

section \<open>The similarity scorer\<close>

definition similarity_score :: "'v env \<Rightarrow> string \<Rightarrow> string \<Rightarrow> rat \<times> call list" where
  "similarity_score env title content =
     (if content = [] \<or> py_strip content = [] then (0, [])
      else
        let content' = take 3000 content;
            emb1 = encode env title;
            emb2 = encode env content';
            sim = cos_sim env emb1 emb2
        in (py_round (fl (sim * 100)) 2, [Encode title, Encode content']))"

section \<open>The lexical rule scorer\<close>

definition CLICKBAIT_WORDS :: "string list" where
  "CLICKBAIT_WORDS =
     [''shocking'', ''unbelievable'', ''secret'', ''exposed'', ''you won'' @ [CHR 39] @ ''t believe'',
      ''insane'', ''trick'', ''overnight'', ''millionaire'', ''scam'', ''warning'',
      ''must watch'', ''gone wrong'', ''leaked'']"

text \<open>The loop over the keywords, lines 98 and 99.\<close>

fun keyword_loop :: "string \<Rightarrow> string list \<Rightarrow> int \<Rightarrow> int" where
  "keyword_loop t_lower [] rule_score = rule_score"
| "keyword_loop t_lower (word # ws) rule_score =
     keyword_loop t_lower ws (if str_contains t_lower word then rule_score + 8 else rule_score)"

text \<open>Lines 96 to 103.\<close>

definition rule_score :: "'v env \<Rightarrow> string \<Rightarrow> int" where
  "rule_score env title =
     (let s0 = 0;
          t_lower = str_lower env title;
          s1 = keyword_loop t_lower CLICKBAIT_WORDS s0;
          s2 = s1 + (min (int (count_list title CHR ''!'') * 2) 10
                     + min (int (count_list title CHR ''?'') * 2) 10);
          s3 = (if str_isupper env title \<and> length title > 10 then s2 + 10 else s2);
          s4 = (if list_ex (re_digit env) title then s3 + 5 else s3)
      in min s4 40)"

section \<open>The endpoint\<close>

record scores =
  r_title :: string
  r_ai_score :: rat
  r_rule_score :: int
  r_similarity_score :: rat
  r_transcript_used :: bool
  r_final_score :: rat
  r_risk_level :: string
  r_clickbait :: bool

datatype response = Error string | Scores scores

text \<open>
  Lines 85 to 136 of \<^verbatim>\<open>predict\<close>: what happens once the identifier and a
  non-empty title are there.
\<close>

definition score_video :: "'v env \<Rightarrow> string \<Rightarrow> string \<Rightarrow> string option \<Rightarrow> response \<times> call list" where
  "score_video env video_id title desc =
     (let (transcript, calls_t) = get_transcript env video_id;
          used_transcript = (transcript \<noteq> None);
          full_text = (case desc of Some d \<Rightarrow> if d = [] then [] else d | None \<Rightarrow> [])
                      @ '' ''
                      @ (case transcript of Some t \<Rightarrow> if t = [] then [] else t | None \<Rightarrow> []);
          ai_score = py_round (fl (classifier_score env title * 100)) 2;
          rule = rule_score env title;
          (sim_score, calls_s) = similarity_score env title full_text;
          final = final_score used_transcript ai_score rule sim_score;
          level = risk_level final
      in (Scores \<lparr> r_title = title, r_ai_score = ai_score, r_rule_score = rule,
                   r_similarity_score = sim_score, r_transcript_used = used_transcript,
                   r_final_score = final, r_risk_level = level,
                   r_clickbait = (55 \<le> final) \<rparr>,
          calls_t @ [Classify title] @ calls_s))"

text \<open>
  \<^verbatim>\<open>predict\<close>. \<^verbatim>\<open>not video_id\<close> and \<^verbatim>\<open>not title\<close> hold for
  \<^verbatim>\<open>None\<close> and for the empty string.
\<close>

definition predict :: "'v env \<Rightarrow> string \<Rightarrow> response \<times> call list" where
  "predict env url =
     (case extract_id url of
        None \<Rightarrow> (Error ''Invalid YouTube URL'', [])
      | Some video_id \<Rightarrow>
          if video_id = [] then (Error ''Invalid YouTube URL'', [])
          else
            let ((title, desc), calls_i) = get_video_info env url
            in (case title of
                  None \<Rightarrow> (Error ''Could not fetch video info'', calls_i)
                | Some t \<Rightarrow>
                    if t = [] then (Error ''Could not fetch video info'', calls_i)
                    else
                      let (resp, calls) = score_video env video_id t desc
                      in (resp, calls_i @ calls)))"

section \<open>A concrete environment\<close>

text \<open>
  The ASCII reading of the three string functions, and an environment built from given
  answers of the collaborators, to run the endpoint on concrete requests. Its embedder
  is the identity; its classifier score and its cosine are the floats nearest to the
  given numbers \<open>score\<close> and \<open>c\<close>.
\<close>

definition ascii_upper_char :: "char \<Rightarrow> bool" where
  "ascii_upper_char c = (65 \<le> (of_char c :: nat) \<and> (of_char c :: nat) \<le> 90)"

definition ascii_lower_char :: "char \<Rightarrow> bool" where
  "ascii_lower_char c = (97 \<le> (of_char c :: nat) \<and> (of_char c :: nat) \<le> 122)"

definition ascii_digit :: "char \<Rightarrow> bool" where
  "ascii_digit c = (48 \<le> (of_char c :: nat) \<and> (of_char c :: nat) \<le> 57)"

definition ascii_lower :: "string \<Rightarrow> string" where
  "ascii_lower s = map (\<lambda>c. if ascii_upper_char c then char_of (of_char c + (32 :: nat)) else c) s"

definition ascii_isupper :: "string \<Rightarrow> bool" where
  "ascii_isupper s = (list_ex ascii_upper_char s \<and> \<not> list_ex ascii_lower_char s)"

definition test_env ::
  "video_info option \<Rightarrow> string list option \<Rightarrow> rat \<Rightarrow> rat \<Rightarrow> string env" where
  "test_env info data score c =
     \<lparr> ydl_extract_info = (\<lambda>url. info),
       transcript_fetch = (\<lambda>video_id. data),
       classifier_score = (\<lambda>title. fl score),
       encode = (\<lambda>text. text),
       cos_sim = (\<lambda>a b. fl c),
       str_lower = ascii_lower,
       str_isupper = ascii_isupper,
       re_digit = ascii_digit \<rparr>"

text \<open>
  Concrete requests: a watch URL, a title that reaches the cap of the rule score and a
  title that scores nothing.
\<close>

definition demo_url :: string where
  "demo_url = ''https://www.youtube.com/watch?v=abc123&t=5''"

definition loud_title :: string where
  "loud_title = ''SHOCKING SECRET EXPOSED!!!!! 1''"

definition loud_info :: "video_info option" where
  "loud_info = Some \<lparr> info_title = Some loud_title, info_description = Some ''desc'' \<rparr>"

definition plain_info :: "video_info option" where
  "plain_info = Some \<lparr> info_title = Some ''plain title'', info_description = None \<rparr>"

section \<open>Rounding to an integer\<close>

lemma round_half_even_cases:
  "round_half_even y = \<lfloor>y\<rfloor> \<and> y - of_int \<lfloor>y\<rfloor> \<le> 1 / 2
   \<or> round_half_even y = \<lfloor>y\<rfloor> + 1 \<and> 1 / 2 \<le> y - of_int \<lfloor>y\<rfloor>"
  by (auto simp: round_half_even_def Let_def)


lemma round_half_even_ge: "of_int k \<le> y \<Longrightarrow> k \<le> round_half_even y"
proof -
  assume "of_int k \<le> y"
  then have "k \<le> \<lfloor>y\<rfloor>" by (simp add: le_floor_iff)
  with round_half_even_cases [of y] show ?thesis by auto
qed

lemma round_half_even_le: "y \<le> of_int k \<Longrightarrow> round_half_even y \<le> k"
proof (cases "y = of_int k")
  case True
  then show ?thesis by (simp add: round_half_even_def)
next
  case False
  assume "y \<le> of_int k"
  with False have "y < of_int k" by simp
  then have "\<lfloor>y\<rfloor> < k" by (simp add: floor_less_iff)
  with round_half_even_cases [of y] show ?thesis by auto
qed

lemma round_half_even_mono:
  assumes "y \<le> z"
  shows "round_half_even y \<le> round_half_even z"
proof (cases "\<lfloor>y\<rfloor> < \<lfloor>z\<rfloor>")
  case True
  have "y < of_int \<lfloor>y\<rfloor> + 1" by linarith
  with True have "y \<le> of_int \<lfloor>z\<rfloor>"
    by (metis floor_less_iff less_eq_rat_def)
  then have "round_half_even y \<le> \<lfloor>z\<rfloor>" by (rule round_half_even_le)
  moreover have "\<lfloor>z\<rfloor> \<le> round_half_even z"
    by (rule round_half_even_ge) simp
  ultimately show ?thesis by simp
next
  case False
  with assms have "\<lfloor>y\<rfloor> = \<lfloor>z\<rfloor>"
    using floor_mono [of y z] by simp
  with assms show ?thesis
    by (auto simp: round_half_even_def Let_def)
qed

lemma round_half_even_uminus: "round_half_even (- y) = - round_half_even y"
proof (cases "y = of_int \<lfloor>y\<rfloor>")
  case True
  then obtain k where "y = of_int k" ..
  then show ?thesis by (simp add: round_half_even_def flip: of_int_minus)
next
  case False
  then have c: "\<lceil>y\<rceil> = \<lfloor>y\<rfloor> + 1"
    by (simp add: ceiling_altdef)
  have f: "\<lfloor>- y\<rfloor> = - \<lfloor>y\<rfloor> - 1"
    using c by (simp add: floor_minus)
  show ?thesis
    unfolding round_half_even_def Let_def f
    by auto
qed

section \<open>The leading bit\<close>

lemma quotient_of_pos:
  assumes "0 < a" and "quotient_of a = (p, q)"
  shows "0 < p" and "0 < q" and "a = of_int p / of_int q"
proof -
  from assms(2) show q: "0 < q" by (rule quotient_of_denom_pos)
  from assms(2) show a: "a = of_int p / of_int q" by (rule quotient_of_div)
  from assms(1) a q show "0 < p" by (simp add: zero_less_divide_iff)
qed

lemma powi_nat: "0 \<le> k \<Longrightarrow> (2 :: rat) powi k = 2 ^ nat k"
  by (simp add: power_int_def)

lemma bitlen_bounds_rat:
  assumes "0 < p"
  shows "(2 :: rat) powi (bitlen p - 1) \<le> of_int p" and "of_int p < (2 :: rat) powi bitlen p"
proof -
  from assms have b: "1 \<le> bitlen p"
    using bitlen_eq_zero_iff [of p] bitlen_nonneg [of p] by linarith
  from bitlen_bounds [OF assms] have l: "2 ^ nat (bitlen p - 1) \<le> p" and u: "p < 2 ^ nat (bitlen p)"
    by simp_all
  from l have "(of_int (2 ^ nat (bitlen p - 1)) :: rat) \<le> of_int p" by (simp only: of_int_le_iff)
  with b show "(2 :: rat) powi (bitlen p - 1) \<le> of_int p" by (simp add: powi_nat)
  from u have "(of_int p :: rat) < of_int (2 ^ nat (bitlen p))" by (simp only: of_int_less_iff)
  with b show "of_int p < (2 :: rat) powi bitlen p" by (simp add: powi_nat)
qed

lemma powi_Suc: "(2 :: rat) powi (k + 1) = 2 * 2 powi k"
  by (simp add: power_int_add)

lemma powi_pos: "0 < (2 :: rat) powi k"
  by simp

lemma powi_mono: "j \<le> k \<Longrightarrow> (2 :: rat) powi j \<le> 2 powi k"
  by (rule power_int_increasing) simp_all

lemma ilog2_bounds:
  assumes "x \<noteq> 0"
  shows "2 powi (ilog2 x) \<le> \<bar>x\<bar>" and "\<bar>x\<bar> < 2 powi (ilog2 x + 1)"
proof -
  obtain p q where pq: "quotient_of \<bar>x\<bar> = (p, q)" by (cases "quotient_of \<bar>x\<bar>")
  from assms have a: "0 < \<bar>x\<bar>" by simp
  note f = quotient_of_pos [OF a pq]
  let ?d = "bitlen p - bitlen q"
  note bp = bitlen_bounds_rat [OF f(1)]
  note bq = bitlen_bounds_rat [OF f(2)]
  have qpos: "(0 :: rat) < of_int q" using f(2) by simp
  have "of_int p < (2 :: rat) powi bitlen p" by (rule bp(2))
  also have "\<dots> = 2 powi (?d + 1) * 2 powi (bitlen q - 1)"
    by (simp add: power_int_add [symmetric])
  also have "\<dots> \<le> 2 powi (?d + 1) * of_int q"
    using bq(1) by (simp add: mult_left_mono)
  finally have up: "\<bar>x\<bar> < 2 powi (?d + 1)"
    using qpos f(3) by (simp add: pos_divide_less_eq)
  have "(2 :: rat) powi (?d - 1) * of_int q < 2 powi (?d - 1) * 2 powi bitlen q"
    using bq(2) by (simp add: mult_strict_left_mono)
  also have "\<dots> = 2 powi (bitlen p - 1)"
    by (simp add: power_int_add [symmetric])
  also have "\<dots> \<le> of_int p" by (rule bp(1))
  finally have lo: "2 powi (?d - 1) < \<bar>x\<bar>"
    using qpos f(3) by (simp add: pos_less_divide_eq)
  have i: "ilog2 x = (if 2 powi ?d \<le> \<bar>x\<bar> then ?d else ?d - 1)"
    by (simp add: ilog2_def pq Let_def)
  show "2 powi (ilog2 x) \<le> \<bar>x\<bar>"
    using lo by (simp add: i)
  show "\<bar>x\<bar> < 2 powi (ilog2 x + 1)"
    using up by (auto simp: i not_le)
qed

section \<open>Rounding to a float\<close>

lemma fl_alt: "fl x = of_int (round_half_even (x / 2 powi (fl_exp x - 52))) * 2 powi (fl_exp x - 52)"
  by (simp add: fl_def Let_def)

lemma powi_split: "(2 :: rat) powi (a + b) = 2 powi a * 2 powi b"
  by (simp add: power_int_add)

lemma powi_53: "(2 :: rat) powi (k + 1) = of_int (2 ^ 53) * 2 powi (k - 52)"
proof -
  have "k + 1 = 53 + (k - 52)" by arith
  then have "(2 :: rat) powi (k + 1) = 2 powi (53 + (k - 52))" by (rule arg_cong)
  also have "\<dots> = 2 powi 53 * 2 powi (k - 52)" by (rule powi_split)
  finally show ?thesis by simp
qed

lemma powi_52: "(2 :: rat) powi k = of_int (2 ^ 52) * 2 powi (k - 52)"
proof -
  have "k = 52 + (k - 52)" by arith
  then have "(2 :: rat) powi k = 2 powi (52 + (k - 52))" by (rule arg_cong)
  also have "\<dots> = 2 powi 52 * 2 powi (k - 52)" by (rule powi_split)
  finally show ?thesis by simp
qed



lemma ilog2_uminus: "ilog2 (- x) = ilog2 x"
  by (simp add: ilog2_def)

lemma fl_uminus: "fl (- x) = - fl x"
  by (simp add: fl_alt fl_exp_def ilog2_uminus round_half_even_uminus)

lemma fl_zero: "fl 0 = 0"
  by (simp add: fl_alt round_half_even_def)

lemma fl_nonneg: "0 \<le> x \<Longrightarrow> 0 \<le> fl x"
proof -
  assume "0 \<le> x"
  then have "of_int 0 \<le> x / 2 powi (fl_exp x - 52)" by simp
  then have "0 \<le> round_half_even (x / 2 powi (fl_exp x - 52))"
    by (rule round_half_even_ge)
  then show ?thesis by (simp add: fl_alt)
qed

lemma fl_exp_upper: "x \<noteq> 0 \<Longrightarrow> \<bar>x\<bar> < 2 powi (fl_exp x + 1)"
proof -
  assume "x \<noteq> 0"
  then have "\<bar>x\<bar> < 2 powi (ilog2 x + 1)" by (rule ilog2_bounds)
  also have "\<dots> \<le> 2 powi (fl_exp x + 1)"
    by (rule powi_mono) (simp add: fl_exp_def)
  finally show ?thesis .
qed

lemma fl_upper:
  assumes "0 < x"
  shows "fl x \<le> 2 powi (fl_exp x + 1)"
proof -
  let ?u = "(2 :: rat) powi (fl_exp x - 52)"
  have u: "0 < ?u" by simp
  from assms have "x < 2 powi (fl_exp x + 1)"
    using fl_exp_upper [of x] by simp
  also have "\<dots> = of_int (2 ^ 53) * ?u" by (rule powi_53)
  finally have "x / ?u < of_int (2 ^ 53)"
    using u by (simp only: pos_divide_less_eq)
  then have "x / ?u \<le> of_int (2 ^ 53)" by (rule less_imp_le)
  then have "round_half_even (x / ?u) \<le> 2 ^ 53" by (rule round_half_even_le)
  then have "(of_int (round_half_even (x / ?u)) :: rat) \<le> of_int (2 ^ 53)"
    by (simp only: of_int_le_iff)
  then have "of_int (round_half_even (x / ?u)) * ?u \<le> of_int (2 ^ 53) * ?u"
    using u by (simp only: mult_le_cancel_right_pos)
  then show ?thesis by (simp only: fl_alt [symmetric] powi_53 [symmetric])
qed

lemma fl_lower:
  assumes "0 < x" and "- 1022 \<le> ilog2 x"
  shows "2 powi (fl_exp x) \<le> fl x"
proof -
  let ?u = "(2 :: rat) powi (fl_exp x - 52)"
  have u: "0 < ?u" by simp
  from assms(2) have e: "fl_exp x = ilog2 x" by (simp add: fl_exp_def)
  have "of_int (2 ^ 52) * ?u = 2 powi (fl_exp x)" by (rule powi_52 [symmetric])
  also from assms(1) have "\<dots> \<le> x"
    using ilog2_bounds(1) [of x] by (simp add: e)
  finally have "of_int (2 ^ 52) \<le> x / ?u"
    using u by (simp only: pos_le_divide_eq)
  then have "2 ^ 52 \<le> round_half_even (x / ?u)" by (rule round_half_even_ge)
  then have "(of_int (2 ^ 52) :: rat) \<le> of_int (round_half_even (x / ?u))"
    by (simp only: of_int_le_iff)
  then have "of_int (2 ^ 52) * ?u \<le> of_int (round_half_even (x / ?u)) * ?u"
    using u by (simp only: mult_le_cancel_right_pos)
  then show ?thesis by (simp only: fl_alt [symmetric] powi_52 [symmetric])
qed

lemma powi_less_cancel: "(2 :: rat) powi j < 2 powi k \<Longrightarrow> j < k"
  by (rule ccontr) (simp add: not_less powi_mono leD)

lemma ilog2_mono:
  assumes "0 < x" and "x \<le> y"
  shows "ilog2 x \<le> ilog2 y"
proof -
  from assms have "2 powi (ilog2 x) \<le> x" and "y < 2 powi (ilog2 y + 1)"
    using ilog2_bounds [of x] ilog2_bounds [of y] by simp_all
  with assms(2) have "(2 :: rat) powi (ilog2 x) < 2 powi (ilog2 y + 1)" by linarith
  then have "ilog2 x < ilog2 y + 1" by (rule powi_less_cancel)
  then show ?thesis by simp
qed

lemma fl_mono_pos:
  assumes "0 < x" and "x \<le> y"
  shows "fl x \<le> fl y"
proof (cases "fl_exp x = fl_exp y")
  case True
  let ?u = "(2 :: rat) powi (fl_exp y - 52)"
  have u: "0 < ?u" by simp
  from assms(2) u have "x / ?u \<le> y / ?u" by (simp add: divide_right_mono)
  then have "round_half_even (x / ?u) \<le> round_half_even (y / ?u)"
    by (rule round_half_even_mono)
  then have "(of_int (round_half_even (x / ?u)) :: rat) \<le> of_int (round_half_even (y / ?u))"
    by (simp only: of_int_le_iff)
  then have "of_int (round_half_even (x / ?u)) * ?u \<le> of_int (round_half_even (y / ?u)) * ?u"
    using u by (simp only: mult_le_cancel_right_pos)
  then show ?thesis by (simp add: fl_alt True)
next
  case False
  from assms have y: "0 < y" by simp
  from assms have "ilog2 x \<le> ilog2 y" by (rule ilog2_mono)
  with False have l: "fl_exp x < fl_exp y" and n: "- 1022 \<le> ilog2 y"
    by (auto simp: fl_exp_def max_def split: if_splits)
  have "fl x \<le> 2 powi (fl_exp x + 1)" using assms(1) by (rule fl_upper)
  also have "\<dots> \<le> 2 powi (fl_exp y)" by (rule powi_mono) (use l in simp)
  also have "\<dots> \<le> fl y" using y n by (rule fl_lower)
  finally show ?thesis .
qed

lemma fl_mono:
  assumes "x \<le> y"
  shows "fl x \<le> fl y"
proof -
  consider "0 < x" | "x \<le> 0" "0 \<le> y" | "y < 0" by linarith
  then show ?thesis
  proof cases
    case 1
    then show ?thesis using assms by (rule fl_mono_pos)
  next
    case 2
    from 2(1) have "0 \<le> fl (- x)" by (simp add: fl_nonneg)
    then have "fl x \<le> 0" by (simp add: fl_uminus)
    also from 2(2) have "0 \<le> fl y" by (rule fl_nonneg)
    finally show ?thesis .
  next
    case 3
    with assms have "0 < - y" and "- y \<le> - x" by simp_all
    then have "fl (- y) \<le> fl (- x)" by (rule fl_mono_pos)
    then show ?thesis by (simp add: fl_uminus)
  qed
qed


section \<open>Rounding to two decimals\<close>

lemma py_round_2_le: "x \<le> of_int k \<Longrightarrow> py_round x 2 \<le> fl (of_int k)"
proof -
  assume "x \<le> of_int k"
  then have "x * 100 \<le> of_int (k * 100)" by simp
  then have "round_half_even (x * 100) \<le> k * 100" by (rule round_half_even_le)
  then have "(of_int (round_half_even (x * 100)) :: rat) \<le> of_int (k * 100)"
    by (simp only: of_int_le_iff)
  then have "of_int (round_half_even (x * 100)) / 100 \<le> (of_int k :: rat)" by simp
  then have "fl (of_int (round_half_even (x * 100)) / 100) \<le> fl (of_int k)" by (rule fl_mono)
  then show ?thesis by (simp add: py_round_def)
qed

lemma py_round_2_ge: "of_int k \<le> x \<Longrightarrow> fl (of_int k) \<le> py_round x 2"
proof -
  assume "of_int k \<le> x"
  then have "of_int (k * 100) \<le> x * 100" by simp
  then have "k * 100 \<le> round_half_even (x * 100)" by (rule round_half_even_ge)
  then have "(of_int (k * 100) :: rat) \<le> of_int (round_half_even (x * 100))"
    by (simp only: of_int_le_iff)
  then have "(of_int k :: rat) \<le> of_int (round_half_even (x * 100)) / 100" by simp
  then have "fl (of_int k) \<le> fl (of_int (round_half_even (x * 100)) / 100)" by (rule fl_mono)
  then show ?thesis by (simp add: py_round_def)
qed




section \<open>The float literals of the fusion\<close>

text \<open>
  The five weights as floats, the integers that bound the scores (each is a float), and
  the products of the largest scores with their weights.
\<close>

lemma float_literals:
  "fl (45 / 100) = 8106479329266893 / 18014398509481984"
  "fl (25 / 100) = 1 / 4"
  "fl (30 / 100) = 5404319552844595 / 18014398509481984"
  "fl (60 / 100) = 5404319552844595 / 9007199254740992"
  "fl (40 / 100) = 3602879701896397 / 9007199254740992"
  by code_simp+

lemma float_integers:
  "fl 10 = 10" "fl 16 = 16" "fl 40 = 40" "fl 45 = 45" "fl 55 = 55" "fl 60 = 60"
  "fl 76 = 76" "fl 100 = 100" "fl 115 = 115" "fl 150 = 150" "fl 200 = 200"
  by code_simp+

lemma float_products:
  "fl (100 * (8106479329266893 / 18014398509481984)) = 45"
  "fl (200 * (5404319552844595 / 18014398509481984)) = 60"
  "fl (150 * (5404319552844595 / 18014398509481984)) = 45"
  "fl (100 * (5404319552844595 / 9007199254740992)) = 60"
  "fl (40 * (3602879701896397 / 9007199254740992)) = 16"
  by code_simp+

section \<open>Bounds of the weighted sums\<close>

lemma fl_le: "x \<le> y \<Longrightarrow> fl y = v \<Longrightarrow> fl x \<le> v"
  using fl_mono [of x y] by simp

lemma rule_float_bounds:
  assumes "0 \<le> rule" and "rule \<le> 40"
  shows "0 \<le> fl (of_int rule)" and "fl (of_int rule) \<le> 40"
proof -
  from assms(1) show "0 \<le> fl (of_int rule)" by (simp add: fl_nonneg)
  from assms(2) have "(of_int rule :: rat) \<le> 40" by simp
  then show "fl (of_int rule) \<le> 40" using float_integers(3) by (rule fl_le)
qed

lemma full_sum_lower:
  assumes "0 \<le> ai" and "0 \<le> rule" and "sim \<le> 100"
  shows "0 \<le> fl (fl (fl (ai * fl (45 / 100)) + fl (fl (of_int rule) * fl (25 / 100)))
                  + fl (fl (100 - sim) * fl (30 / 100)))"
proof -
  from assms(1) have a: "0 \<le> fl (ai * fl (45 / 100))"
    by (simp add: fl_nonneg float_literals)
  from assms(2) have "0 \<le> fl (of_int rule)" by (simp add: fl_nonneg)
  then have b: "0 \<le> fl (fl (of_int rule) * fl (25 / 100))"
    by (simp add: fl_nonneg float_literals)
  from assms(3) have "0 \<le> fl (100 - sim)" by (simp add: fl_nonneg)
  then have c: "0 \<le> fl (fl (100 - sim) * fl (30 / 100))"
    by (simp add: fl_nonneg float_literals)
  from a b have "0 \<le> fl (fl (ai * fl (45 / 100)) + fl (fl (of_int rule) * fl (25 / 100)))"
    by (simp add: fl_nonneg)
  with c show ?thesis by (simp add: fl_nonneg)
qed

lemma degraded_sum_lower:
  assumes "0 \<le> ai" and "0 \<le> rule"
  shows "0 \<le> fl (fl (ai * fl (60 / 100)) + fl (fl (of_int rule) * fl (40 / 100)))"
proof -
  from assms(1) have a: "0 \<le> fl (ai * fl (60 / 100))"
    by (simp add: fl_nonneg float_literals)
  from assms(2) have "0 \<le> fl (of_int rule)" by (simp add: fl_nonneg)
  then have b: "0 \<le> fl (fl (of_int rule) * fl (40 / 100))"
    by (simp add: fl_nonneg float_literals)
  from a b show ?thesis by (simp add: fl_nonneg)
qed

lemma head_sum_upper:
  assumes "ai \<le> 100" and "rule \<le> 40"
  shows "fl (fl (ai * fl (45 / 100)) + fl (fl (of_int rule) * fl (25 / 100))) \<le> 55"
proof -
  from assms(1) have "ai * (8106479329266893 / 18014398509481984)
      \<le> 100 * (8106479329266893 / 18014398509481984)"
    by simp
  then have a: "fl (ai * fl (45 / 100)) \<le> 45"
    unfolding float_literals using float_products(1) by (rule fl_le)
  from assms(2) have "(of_int rule :: rat) \<le> 40" by simp
  then have "fl (of_int rule) \<le> 40" using float_integers(3) by (rule fl_le)
  then have "fl (of_int rule) * (1 / 4) \<le> 10" by simp
  then have b: "fl (fl (of_int rule) * fl (25 / 100)) \<le> 10"
    unfolding float_literals using float_integers(1) by (rule fl_le)
  from a b have "fl (ai * fl (45 / 100)) + fl (fl (of_int rule) * fl (25 / 100)) \<le> 55"
    by linarith
  then show ?thesis using float_integers(5) by (rule fl_le)
qed

lemma full_sum_upper:
  assumes "ai \<le> 100" and "rule \<le> 40"
  shows "- 100 \<le> sim \<Longrightarrow>
           fl (fl (fl (ai * fl (45 / 100)) + fl (fl (of_int rule) * fl (25 / 100)))
               + fl (fl (100 - sim) * fl (30 / 100))) \<le> 115"
    and "- 50 \<le> sim \<Longrightarrow>
           fl (fl (fl (ai * fl (45 / 100)) + fl (fl (of_int rule) * fl (25 / 100)))
               + fl (fl (100 - sim) * fl (30 / 100))) \<le> 100"
proof -
  note h = head_sum_upper [OF assms]
  {
    assume "- 100 \<le> sim"
    then have "100 - sim \<le> 200" by simp
    then have "fl (100 - sim) \<le> 200" using float_integers(11) by (rule fl_le)
    then have "fl (100 - sim) * (5404319552844595 / 18014398509481984)
        \<le> 200 * (5404319552844595 / 18014398509481984)"
      by simp
    then have "fl (fl (100 - sim) * fl (30 / 100)) \<le> 60"
      unfolding float_literals using float_products(2) by (rule fl_le)
    with h have "fl (fl (ai * fl (45 / 100)) + fl (fl (of_int rule) * fl (25 / 100)))
               + fl (fl (100 - sim) * fl (30 / 100)) \<le> 115"
      by linarith
    then show "fl (fl (fl (ai * fl (45 / 100)) + fl (fl (of_int rule) * fl (25 / 100)))
               + fl (fl (100 - sim) * fl (30 / 100))) \<le> 115"
      using float_integers(9) by (rule fl_le)
  }
  {
    assume "- 50 \<le> sim"
    then have "100 - sim \<le> 150" by simp
    then have "fl (100 - sim) \<le> 150" using float_integers(10) by (rule fl_le)
    then have "fl (100 - sim) * (5404319552844595 / 18014398509481984)
        \<le> 150 * (5404319552844595 / 18014398509481984)"
      by simp
    then have "fl (fl (100 - sim) * fl (30 / 100)) \<le> 45"
      unfolding float_literals using float_products(3) by (rule fl_le)
    with h have "fl (fl (ai * fl (45 / 100)) + fl (fl (of_int rule) * fl (25 / 100)))
               + fl (fl (100 - sim) * fl (30 / 100)) \<le> 100"
      by linarith
    then show "fl (fl (fl (ai * fl (45 / 100)) + fl (fl (of_int rule) * fl (25 / 100)))
               + fl (fl (100 - sim) * fl (30 / 100))) \<le> 100"
      using float_integers(8) by (rule fl_le)
  }
qed

lemma degraded_sum_upper:
  assumes "ai \<le> 100" and "rule \<le> 40"
  shows "fl (fl (ai * fl (60 / 100)) + fl (fl (of_int rule) * fl (40 / 100))) \<le> 76"
proof -
  from assms(1) have "ai * (5404319552844595 / 9007199254740992)
      \<le> 100 * (5404319552844595 / 9007199254740992)"
    by simp
  then have a: "fl (ai * fl (60 / 100)) \<le> 60"
    unfolding float_literals using float_products(4) by (rule fl_le)
  from assms(2) have "(of_int rule :: rat) \<le> 40" by simp
  then have "fl (of_int rule) \<le> 40" using float_integers(3) by (rule fl_le)
  then have "fl (of_int rule) * (3602879701896397 / 9007199254740992)
      \<le> 40 * (3602879701896397 / 9007199254740992)"
    by simp
  then have b: "fl (fl (of_int rule) * fl (40 / 100)) \<le> 16"
    unfolding float_literals using float_products(5) by (rule fl_le)
  from a b have "fl (ai * fl (60 / 100)) + fl (fl (of_int rule) * fl (40 / 100)) \<le> 76"
    by linarith
  then show ?thesis using float_integers(7) by (rule fl_le)
qed

lemma py_round_2_int_le: "x \<le> of_int k \<Longrightarrow> fl (of_int k) = of_int k \<Longrightarrow> py_round x 2 \<le> of_int k"
  using py_round_2_le [of x k] by simp

lemma final_score_lower:
  assumes "0 \<le> ai" "0 \<le> rule" "sim \<le> 100"
  shows "0 \<le> final_score used ai rule sim"
proof -
  have "of_int 0 \<le> (if used
         then fl (fl (fl (ai * fl (45 / 100)) + fl (fl (of_int rule) * fl (25 / 100)))
                  + fl (fl (100 - sim) * fl (30 / 100)))
         else fl (fl (ai * fl (60 / 100)) + fl (fl (of_int rule) * fl (40 / 100))))"
    using full_sum_lower [OF assms] degraded_sum_lower [OF assms(1,2)]
    by (cases used) simp_all
  then have "fl (of_int 0) \<le> final_score used ai rule sim"
    unfolding final_score_def Let_def by (rule py_round_2_ge)
  then show ?thesis by (simp add: fl_zero)
qed

lemma final_score_upper:
  assumes "ai \<le> 100" "rule \<le> 40"
  shows "- 100 \<le> sim \<Longrightarrow> final_score used ai rule sim \<le> 115"
    and "- 50 \<le> sim \<Longrightarrow> final_score used ai rule sim \<le> 100"
    and "\<not> used \<Longrightarrow> final_score used ai rule sim \<le> 76"
proof -
  note d = degraded_sum_upper [OF assms]
  note f = full_sum_upper [OF assms]
  {
    assume "- 100 \<le> sim"
    from f(1) [OF this] d
    have "(if used
         then fl (fl (fl (ai * fl (45 / 100)) + fl (fl (of_int rule) * fl (25 / 100)))
                  + fl (fl (100 - sim) * fl (30 / 100)))
         else fl (fl (ai * fl (60 / 100)) + fl (fl (of_int rule) * fl (40 / 100))))
       \<le> of_int 115"
      by (cases used) simp_all
    then have "final_score used ai rule sim \<le> fl (of_int 115)"
      unfolding final_score_def Let_def by (rule py_round_2_le)
    then show "final_score used ai rule sim \<le> 115" by (simp add: float_integers)
  }
  {
    assume "- 50 \<le> sim"
    from f(2) [OF this] d
    have "(if used
         then fl (fl (fl (ai * fl (45 / 100)) + fl (fl (of_int rule) * fl (25 / 100)))
                  + fl (fl (100 - sim) * fl (30 / 100)))
         else fl (fl (ai * fl (60 / 100)) + fl (fl (of_int rule) * fl (40 / 100))))
       \<le> of_int 100"
      by (cases used) simp_all
    then have "final_score used ai rule sim \<le> fl (of_int 100)"
      unfolding final_score_def Let_def by (rule py_round_2_le)
    then show "final_score used ai rule sim \<le> 100" by (simp add: float_integers)
  }
  {
    assume "\<not> used"
    with d
    have "(if used
         then fl (fl (fl (ai * fl (45 / 100)) + fl (fl (of_int rule) * fl (25 / 100)))
                  + fl (fl (100 - sim) * fl (30 / 100)))
         else fl (fl (ai * fl (60 / 100)) + fl (fl (of_int rule) * fl (40 / 100))))
       \<le> of_int 76"
      by simp
    then have "final_score used ai rule sim \<le> fl (of_int 76)"
      unfolding final_score_def Let_def by (rule py_round_2_le)
    then show "final_score used ai rule sim \<le> 76" by (simp add: float_integers)
  }
qed

section \<open>Distance of the float sums from the exact sums\<close>










section \<open>The response carries the fused score\<close>

lemma score_video_Scores:
  "\<exists>r. fst (score_video env video_id t d) = Scores r
     \<and> r_title r = t
     \<and> r_ai_score r = py_round (fl (classifier_score env t * 100)) 2
     \<and> r_rule_score r = rule_score env t
     \<and> r_final_score r =
         final_score (r_transcript_used r) (r_ai_score r) (r_rule_score r) (r_similarity_score r)
     \<and> r_risk_level r = risk_level (r_final_score r)
     \<and> r_clickbait r = (55 \<le> r_final_score r)"
  by (simp add: score_video_def Let_def split: prod.splits)

lemma predict_Scores_score_video:
  assumes "predict env url = (Scores r, calls)"
  shows "\<exists>video_id t d calls'. score_video env video_id t d = (Scores r, calls')"
  using assms
  by (auto simp: predict_def Let_def split: option.splits if_splits prod.splits)

lemma predict_Scores_fields:
  assumes "predict env url = (Scores r, calls)"
  shows "r_final_score r =
           final_score (r_transcript_used r) (r_ai_score r) (r_rule_score r) (r_similarity_score r)"
    and "r_risk_level r = risk_level (r_final_score r)"
    and "r_clickbait r = (55 \<le> r_final_score r)"
proof -
  from predict_Scores_score_video [OF assms] obtain video_id t d
    where s: "fst (score_video env video_id t d) = Scores r" by (metis fst_conv)
  from score_video_Scores [of env video_id t d] s
  show "r_final_score r =
           final_score (r_transcript_used r) (r_ai_score r) (r_rule_score r) (r_similarity_score r)"
    and "r_risk_level r = risk_level (r_final_score r)"
    and "r_clickbait r = (55 \<le> r_final_score r)"
    by auto
qed

section \<open>The endpoint on concrete requests\<close>


lemma run_degraded:
  "predict (test_env loud_info None (8 / 10) (2 / 10)) demo_url =
     (Scores \<lparr> r_title = loud_title, r_ai_score = 80, r_rule_score = 40,
               r_similarity_score = 20, r_transcript_used = False, r_final_score = 64,
               r_risk_level = ''High'', r_clickbait = True \<rparr>,
      [Extract_info demo_url, Fetch_transcript ''abc123'', Classify loud_title,
       Encode loud_title, Encode ''desc ''])"
  by code_simp

lemma run_negative:
  "predict (test_env loud_info (Some [''a'', ''b'']) 1 (- 1)) demo_url =
     (Scores \<lparr> r_title = loud_title, r_ai_score = 100, r_rule_score = 40,
               r_similarity_score = - 100, r_transcript_used = True, r_final_score = 115,
               r_risk_level = ''Very High'', r_clickbait = True \<rparr>,
      [Extract_info demo_url, Fetch_transcript ''abc123'', Classify loud_title,
       Encode loud_title, Encode ''desc a b''])"
  by code_simp

lemma run_75:
  "predict (test_env loud_info None (9833 / 10000) 0) demo_url =
     (Scores \<lparr> r_title = loud_title, r_ai_score = fl (9833 / 100), r_rule_score = 40,
               r_similarity_score = 0, r_transcript_used = False, r_final_score = 75,
               r_risk_level = ''Very High'', r_clickbait = True \<rparr>,
      [Extract_info demo_url, Fetch_transcript ''abc123'', Classify loud_title,
       Encode loud_title, Encode ''desc ''])"
  by code_simp

lemma run_55:
  "predict (test_env plain_info None (9167 / 10000) 0) demo_url =
     (Scores \<lparr> r_title = ''plain title'', r_ai_score = fl (9167 / 100), r_rule_score = 0,
               r_similarity_score = 0, r_transcript_used = False, r_final_score = 55,
               r_risk_level = ''Medium'', r_clickbait = True \<rparr>,
      [Extract_info demo_url, Fetch_transcript ''abc123'', Classify ''plain title''])"
  by code_simp

lemma run_7499:
  "predict (test_env loud_info None (9832 / 10000) 0) demo_url =
     (Scores \<lparr> r_title = loud_title, r_ai_score = fl (9832 / 100), r_rule_score = 40,
               r_similarity_score = 0, r_transcript_used = False, r_final_score = fl (7499 / 100),
               r_risk_level = ''High'', r_clickbait = True \<rparr>,
      [Extract_info demo_url, Fetch_transcript ''abc123'', Classify loud_title,
       Encode loud_title, Encode ''desc ''])"
  by code_simp

lemma run_5499:
  "predict (test_env plain_info None (9165 / 10000) 0) demo_url =
     (Scores \<lparr> r_title = ''plain title'', r_ai_score = fl (9165 / 100), r_rule_score = 0,
               r_similarity_score = 0, r_transcript_used = False, r_final_score = fl (5499 / 100),
               r_risk_level = ''Medium'', r_clickbait = False \<rparr>,
      [Extract_info demo_url, Fetch_transcript ''abc123'', Classify ''plain title''])"
  by code_simp

lemma run_60:
  "predict (test_env plain_info None 1 0) demo_url =
     (Scores \<lparr> r_title = ''plain title'', r_ai_score = 100, r_rule_score = 0,
               r_similarity_score = 0, r_transcript_used = False, r_final_score = 60,
               r_risk_level = ''High'', r_clickbait = True \<rparr>,
      [Extract_info demo_url, Fetch_transcript ''abc123'', Classify ''plain title''])"
  by code_simp

lemma final_score_ties:
  "final_score True (fl (501 / 10)) 0 0 = fl (5255 / 100)"
  "final_score True (fl (781 / 10)) 40 (fl (1 / 2)) = fl (7499 / 100)"
  by code_simp+


section \<open>Fusion formula\<close>



section \<open>Risk level and clickbait flag\<close>

text \<open>
  Claim C3. The risk level is derived from the final score by ordered thresholds that do
  not overlap: \<open>final \<ge> 75\<close> gives "Very High", \<open>60 \<le> final < 75\<close> gives "High",
  \<open>45 \<le> final < 60\<close> gives "Medium" and \<open>final < 45\<close> gives "Low" (each of the four
  as an equivalence). Exactly 75.00 gives "Very High", 74.99 gives "High", as the number
  and as the float nearest to it, and exactly 60.00 gives "High". The \<^verbatim>\<open>risk_level\<close> field of every response of the endpoint
  is this function of the response's \<^verbatim>\<open>final_score\<close>.
\<close>

theorem risk_level_thresholds:
  "(risk_level final = ''Very High'') = (75 \<le> final)
   \<and> (risk_level final = ''High'') = (60 \<le> final \<and> final < 75)
   \<and> (risk_level final = ''Medium'') = (45 \<le> final \<and> final < 60)
   \<and> (risk_level final = ''Low'') = (final < 45)
   \<and> risk_level 75 = ''Very High''
   \<and> risk_level (7499 / 100) = ''High''
   \<and> risk_level (fl (7499 / 100)) = ''High''
   \<and> risk_level 60 = ''High''
   \<and> (\<forall>(env :: 'v env) url r calls. predict env url = (Scores r, calls) \<longrightarrow>
        r_risk_level r = risk_level (r_final_score r))"
proof -
  have a: "(risk_level final = ''Very High'') = (75 \<le> final)"
    "(risk_level final = ''High'') = (60 \<le> final \<and> final < 75)"
    "(risk_level final = ''Medium'') = (45 \<le> final \<and> final < 60)"
    "(risk_level final = ''Low'') = (final < 45)"
    by (auto simp: risk_level_def)
  have b: "risk_level 75 = ''Very High''" "risk_level (7499 / 100) = ''High''"
    "risk_level 60 = ''High''"
    by (simp_all add: risk_level_def)
  have f: "risk_level (fl (7499 / 100)) = ''High''"
    by code_simp
  have c: "\<forall>(env :: 'v env) url r calls. predict env url = (Scores r, calls) \<longrightarrow>
        r_risk_level r = risk_level (r_final_score r)"
    using predict_Scores_fields(2) by blast
  from a b(1,2) f b(3) c show ?thesis
    by (intro conjI) assumption+
qed


theorem risk_level_thresholds_witness:
  "predict (test_env loud_info None (9833 / 10000) 0) demo_url =
     (Scores \<lparr> r_title = loud_title, r_ai_score = fl (9833 / 100), r_rule_score = 40,
               r_similarity_score = 0, r_transcript_used = False, r_final_score = 75,
               r_risk_level = ''Very High'', r_clickbait = True \<rparr>,
      [Extract_info demo_url, Fetch_transcript ''abc123'', Classify loud_title,
       Encode loud_title, Encode ''desc ''])
   \<and> ''Very High'' = risk_level 75
   \<and> predict (test_env loud_info None (9832 / 10000) 0) demo_url =
     (Scores \<lparr> r_title = loud_title, r_ai_score = fl (9832 / 100), r_rule_score = 40,
               r_similarity_score = 0, r_transcript_used = False, r_final_score = fl (7499 / 100),
               r_risk_level = ''High'', r_clickbait = True \<rparr>,
      [Extract_info demo_url, Fetch_transcript ''abc123'', Classify loud_title,
       Encode loud_title, Encode ''desc ''])
   \<and> ''High'' = risk_level (fl (7499 / 100))
   \<and> predict (test_env plain_info None 1 0) demo_url =
     (Scores \<lparr> r_title = ''plain title'', r_ai_score = 100, r_rule_score = 0,
               r_similarity_score = 0, r_transcript_used = False, r_final_score = 60,
               r_risk_level = ''High'', r_clickbait = True \<rparr>,
      [Extract_info demo_url, Fetch_transcript ''abc123'', Classify ''plain title''])
   \<and> ''High'' = risk_level 60"
proof -
  note c = risk_level_thresholds [where ?'v = string, of 75]
  from c have all: "\<And>(env :: string env) url r calls. predict env url = (Scores r, calls) \<Longrightarrow>
        r_risk_level r = risk_level (r_final_score r)"
    by blast
  from all [OF run_75] all [OF run_7499] all [OF run_60] run_75 run_7499 run_60
  show ?thesis
    by simp
qed

text \<open>
  Claim C4. In every response of the endpoint the \<^verbatim>\<open>clickbait\<close> flag is true if and
  only if \<open>final_score \<ge> 55\<close>; a final score of 55.00 gives true and 54.99 gives
  false, as the number and as the float nearest to it. The threshold is not one of the tier boundaries: the two responses of the
  witness are in the same tier, "Medium", and differ in the flag.
\<close>

theorem clickbait_threshold:
  assumes "predict env url = (Scores r, calls)"
  shows "r_clickbait r = (55 \<le> r_final_score r)
     \<and> (r_final_score r = 55 \<longrightarrow> r_clickbait r)
     \<and> (r_final_score r = 5499 / 100 \<longrightarrow> \<not> r_clickbait r)
     \<and> (r_final_score r = fl (5499 / 100) \<longrightarrow> \<not> r_clickbait r)"
proof -
  have "\<not> 55 \<le> fl (5499 / 100)"
    by code_simp
  with predict_Scores_fields(3) [of env url r calls] assms show ?thesis
    by simp
qed

theorem clickbait_threshold_witness:
  "predict (test_env plain_info None (9167 / 10000) 0) demo_url =
     (Scores \<lparr> r_title = ''plain title'', r_ai_score = fl (9167 / 100), r_rule_score = 0,
               r_similarity_score = 0, r_transcript_used = False, r_final_score = 55,
               r_risk_level = ''Medium'', r_clickbait = True \<rparr>,
      [Extract_info demo_url, Fetch_transcript ''abc123'', Classify ''plain title''])
   \<and> predict (test_env plain_info None (9165 / 10000) 0) demo_url =
     (Scores \<lparr> r_title = ''plain title'', r_ai_score = fl (9165 / 100), r_rule_score = 0,
               r_similarity_score = 0, r_transcript_used = False, r_final_score = fl (5499 / 100),
               r_risk_level = ''Medium'', r_clickbait = False \<rparr>,
      [Extract_info demo_url, Fetch_transcript ''abc123'', Classify ''plain title''])
   \<and> (55 :: rat) \<le> 55 \<and> \<not> (55 :: rat) \<le> 5499 / 100"
  using clickbait_threshold [OF run_55] clickbait_threshold [OF run_5499] run_55 run_5499 by simp

section \<open>Range of the final score\<close>

text \<open>
  Claim C2, as amended. For \<open>aiScore\<close> in \<open>[0,100]\<close>, \<open>ruleScore\<close> in \<open>[0,40]\<close> and
  \<open>similarityScore\<close> in \<open>[-100,100]\<close> (the range of a rounded cosine times 100), the
  rounded final score lies in \<open>[0,115]\<close>. It lies in \<open>[0,100]\<close> whenever the
  similarity score is at least \<open>-50\<close>, and always when the transcript was not used.
\<close>

theorem final_score_range:
  assumes "0 \<le> ai" "ai \<le> 100" "0 \<le> rule" "rule \<le> 40" "- 100 \<le> sim" "sim \<le> 100"
  shows "0 \<le> final_score used ai rule sim
         \<and> final_score used ai rule sim \<le> 115
         \<and> (- 50 \<le> sim \<or> \<not> used \<longrightarrow> final_score used ai rule sim \<le> 100)"
proof -
  note lo = final_score_lower [OF assms(1,3,6), of used]
  note up = final_score_upper [OF assms(2,4), where sim = sim and used = used]
  from up(3) have "\<not> used \<Longrightarrow> final_score used ai rule sim \<le> 100" by linarith
  with lo up(1) [OF assms(5)] up(2) show ?thesis by blast
qed

theorem final_score_range_witness:
  "(0 :: rat) \<le> 100 \<and> (100 :: rat) \<le> 100 \<and> (0 :: int) \<le> 40 \<and> (40 :: int) \<le> 40
   \<and> (- 100 :: rat) \<le> - 50 \<and> (- 50 :: rat) \<le> 100
   \<and> 0 \<le> final_score True 100 40 (- 50)
   \<and> final_score True 100 40 (- 50) \<le> 115
   \<and> final_score True 100 40 (- 50) \<le> 100"
  using final_score_range [of 100 40 "- 50" True] by simp

text \<open>
  The claim as stated, with a final score in \<open>[0,100]\<close> for every similarity score the
  scorer can produce, fails: a cosine of \<open>-1\<close> gives the similarity score \<open>-100\<close>, and
  with a classifier score of 1 and a rule score of 40 the endpoint answers 115.
\<close>

theorem final_score_range_counterexample:
  "predict (test_env loud_info (Some [''a'', ''b'']) 1 (- 1)) demo_url =
     (Scores \<lparr> r_title = loud_title, r_ai_score = 100, r_rule_score = 40,
               r_similarity_score = - 100, r_transcript_used = True, r_final_score = 115,
               r_risk_level = ''Very High'', r_clickbait = True \<rparr>,
      [Extract_info demo_url, Fetch_transcript ''abc123'', Classify loud_title,
       Encode loud_title, Encode ''desc a b''])
   \<and> final_score True 100 40 (- 100) = 115
   \<and> \<not> final_score True 100 40 (- 100) \<le> 100"
proof -
  have "final_score True 100 40 (- 100) = 115"
    by code_simp
  with run_negative show ?thesis by simp
qed

section \<open>The rule score\<close>

lemma str_contains_sublist: "str_contains s w = sublist w s"
  by (induction s) (simp_all add: sublist_Cons_right)

lemma keyword_loop_count:
  "keyword_loop t ws s = s + 8 * int (length (filter (str_contains t) ws))"
  by (induction ws arbitrary: s) simp_all

lemma distinct_CLICKBAIT_WORDS: "distinct CLICKBAIT_WORDS"
  by (simp add: CLICKBAIT_WORDS_def)

lemma keyword_loop_card:
  "keyword_loop t CLICKBAIT_WORDS s
     = s + 8 * int (card {w \<in> set CLICKBAIT_WORDS. sublist w t})"
proof -
  have "distinct (filter (str_contains t) CLICKBAIT_WORDS)"
    using distinct_CLICKBAIT_WORDS by (rule distinct_filter)
  then have "card (set (filter (str_contains t) CLICKBAIT_WORDS))
               = length (filter (str_contains t) CLICKBAIT_WORDS)"
    by (rule distinct_card)
  moreover have "set (filter (str_contains t) CLICKBAIT_WORDS)
                   = {w \<in> set CLICKBAIT_WORDS. sublist w t}"
    by (simp add: str_contains_sublist)
  ultimately show ?thesis
    by (simp add: keyword_loop_count)
qed

lemma rule_score_sum:
  "rule_score env title =
     min 40 (8 * int (card {w \<in> set CLICKBAIT_WORDS. sublist w (str_lower env title)})
             + min 10 (2 * int (count_list title CHR ''!''))
             + min 10 (2 * int (count_list title CHR ''?''))
             + (if str_isupper env title \<and> 10 < length title then 10 else 0)
             + (if \<exists>c \<in> set title. re_digit env c then 5 else 0))"
  by (simp add: rule_score_def Let_def keyword_loop_card list_ex_iff min_def)

lemma rule_score_exclamations:
  "rule_score (test_env None None 0 0) (replicate 300 CHR ''!'') = 10"
  by code_simp

text \<open>
  Claim C5. For every title the rule score is in \<open>[0,40]\<close>. It is the sum, capped at
  40, of 8 for each keyword of the list that is a substring of the lower-cased title
  (once per keyword), 2 for each exclamation mark up to 10, 2 for each question mark up
  to 10, 10 when the title is upper-case and longer than 10 characters, and 5 when the
  title contains a digit. A title of 300 exclamation marks scores 10.
\<close>

theorem rule_score_range:
  "0 \<le> rule_score env title
   \<and> rule_score env title \<le> 40
   \<and> rule_score env title =
       min 40 (8 * int (card {w \<in> set CLICKBAIT_WORDS. sublist w (str_lower env title)})
               + min 10 (2 * int (count_list title CHR ''!''))
               + min 10 (2 * int (count_list title CHR ''?''))
               + (if str_isupper env title \<and> 10 < length title then 10 else 0)
               + (if \<exists>c \<in> set title. re_digit env c then 5 else 0))
   \<and> rule_score (test_env None None 0 0) (replicate 300 CHR ''!'') = 10"
proof -
  have "0 \<le> rule_score env title" and "rule_score env title \<le> 40"
    unfolding rule_score_sum by simp_all
  with rule_score_sum [of env title] rule_score_exclamations show ?thesis
    by (intro conjI) assumption+
qed

section \<open>Short circuits of the endpoint\<close>

lemma first_match_None_iff:
  "first_match ps url = None \<longleftrightarrow> (\<forall>p \<in> set ps. re_search p url = None)"
  by (induction ps) (auto split: option.splits)

lemma re_search_nonempty: "re_search p s = Some g \<Longrightarrow> g \<noteq> []"
  by (induction s) (auto split: if_splits)

lemma first_match_nonempty: "first_match ps url = Some g \<Longrightarrow> g \<noteq> []"
  by (induction ps) (auto split: option.splits dest: re_search_nonempty)

lemma extract_id_nonempty: "extract_id url = Some video_id \<Longrightarrow> video_id \<noteq> []"
  unfolding extract_id_def by (rule first_match_nonempty)

text \<open>
  Claim C6. When none of the ordered extraction patterns finds an identifier in the
  URL, the endpoint answers with the error "Invalid YouTube URL" and calls no
  collaborator: the list of calls is empty, whatever the environment.
\<close>

theorem invalid_url_no_calls:
  assumes "\<forall>p \<in> set patterns. re_search p url = None"
  shows "predict env url = (Error ''Invalid YouTube URL'', [])"
proof -
  from assms have "extract_id url = None"
    by (simp add: extract_id_def first_match_None_iff)
  then show ?thesis by (simp add: predict_def)
qed

theorem invalid_url_no_calls_witness:
  "extract_id ''https://example.com/watch'' = None
   \<and> predict (test_env loud_info (Some [''a'', ''b'']) 1 1) ''https://example.com/watch''
       = (Error ''Invalid YouTube URL'', [])"
proof -
  have n: "extract_id ''https://example.com/watch'' = None"
    by code_simp
  then have "\<forall>p \<in> set patterns. re_search p ''https://example.com/watch'' = None"
    by (simp only: extract_id_def first_match_None_iff)
  from n invalid_url_no_calls [OF this] show ?thesis
    by (intro conjI)
qed

text \<open>
  Claim C9. When the identifier is found and the metadata collaborator answers with an
  empty title, the endpoint answers with the error "Could not fetch video info" after
  the one metadata call: no transcript fetch, no classifier call and no embedding. That
  is the answer it gives when the metadata collaborator fails.
\<close>

theorem empty_title_is_failure:
  assumes "extract_id url = Some video_id"
    and "ydl_extract_info env url = Some info"
    and "info_title info = Some []"
  shows "predict env url = (Error ''Could not fetch video info'', [Extract_info url])
         \<and> predict env url = predict (env \<lparr> ydl_extract_info := (\<lambda>u. None) \<rparr>) url"
  using assms extract_id_nonempty [OF assms(1)]
  by (simp add: predict_def get_video_info_def)

theorem empty_title_is_failure_witness:
  "extract_id demo_url = Some ''abc123''
   \<and> predict (test_env (Some \<lparr> info_title = Some [], info_description = Some ''desc'' \<rparr>)
                (Some [''a'', ''b'']) 1 1) demo_url
       = (Error ''Could not fetch video info'', [Extract_info demo_url])
   \<and> predict (test_env None (Some [''a'', ''b'']) 1 1) demo_url
       = (Error ''Could not fetch video info'', [Extract_info demo_url])"
proof -
  have i: "extract_id demo_url = Some ''abc123''"
    by code_simp
  have e: "ydl_extract_info
             (test_env (Some \<lparr> info_title = Some [], info_description = Some ''desc'' \<rparr>)
                (Some [''a'', ''b'']) 1 1) demo_url
           = Some \<lparr> info_title = Some [], info_description = Some ''desc'' \<rparr>"
    by (simp add: test_env_def)
  have t: "info_title \<lparr> info_title = Some [], info_description = Some ''desc'' \<rparr> = Some []"
    by simp
  have u: "(test_env (Some \<lparr> info_title = Some [], info_description = Some ''desc'' \<rparr>)
                (Some [''a'', ''b'']) 1 1) \<lparr> ydl_extract_info := (\<lambda>u. None) \<rparr>
           = test_env None (Some [''a'', ''b'']) 1 1"
    by (simp add: test_env_def)
  note th = empty_title_is_failure [OF i e t, unfolded u]
  from th have a: "predict (test_env (Some \<lparr> info_title = Some [], info_description = Some ''desc'' \<rparr>)
                (Some [''a'', ''b'']) 1 1) demo_url
       = (Error ''Could not fetch video info'', [Extract_info demo_url])"
    by (rule conjunct1)
  from th have b: "predict (test_env (Some \<lparr> info_title = Some [], info_description = Some ''desc'' \<rparr>)
                (Some [''a'', ''b'']) 1 1) demo_url
       = predict (test_env None (Some [''a'', ''b'']) 1 1) demo_url"
    by (rule conjunct2)
  from i a trans [OF b [symmetric] a] show ?thesis
    by (intro conjI)
qed

section \<open>The similarity scorer\<close>

lemma dropWhile_all_iff: "(\<forall>x \<in> set (dropWhile P xs). P x) \<longleftrightarrow> (\<forall>x \<in> set xs. P x)"
proof (induction xs)
  case Nil
  then show ?case by simp
next
  case (Cons a xs)
  then show ?case by (cases "P a") auto
qed

lemma py_strip_Nil_iff: "py_strip s = [] \<longleftrightarrow> (\<forall>c \<in> set s. is_space c)"
  by (simp add: py_strip_def dropWhile_eq_Nil_conv dropWhile_all_iff)

lemma similarity_score_blank:
  "\<forall>c \<in> set content. is_space c \<Longrightarrow> similarity_score env title content = (0, [])"
  by (simp add: similarity_score_def py_strip_Nil_iff)

lemma similarity_score_text:
  "\<not> (\<forall>c \<in> set content. is_space c) \<Longrightarrow>
     similarity_score env title content =
       (py_round (fl (cos_sim env (encode env title) (encode env (take 3000 content)) * 100)) 2,
        [Encode title, Encode (take 3000 content)])"
  by (auto simp: similarity_score_def py_strip_Nil_iff Let_def)

lemma half_cosine: "py_round (fl (fl (1 / 2) * 100)) 2 = 50"
  by code_simp

lemma is_space_blank: "is_space CHR '' ''"
  by (simp add: is_space_def)

text \<open>
  Claim C7. For every title the similarity scorer returns 0 when the content is the
  empty string or consists of whitespace only, and then the embedder is not called: the
  list of calls is empty.
\<close>

theorem similarity_score_empty:
  assumes "content = [] \<or> (\<forall>c \<in> set content. is_space c)"
  shows "similarity_score env title content = (0, [])"
proof -
  from assms have "\<forall>c \<in> set content. is_space c" by auto
  then show ?thesis by (rule similarity_score_blank)
qed

theorem similarity_score_empty_witness:
  "similarity_score (test_env None None 1 1) ''some title'' '''' = (0, [])
   \<and> similarity_score (test_env None None 1 1) ''some title'' ''   '' = (0, [])"
proof -
  have "\<forall>c \<in> set ''   ''. is_space c" by (simp add: is_space_blank)
  then have b: "''   '' = [] \<or> (\<forall>c \<in> set ''   ''. is_space c)" by (rule disjI2)
  have a: "('''' :: string) = [] \<or> (\<forall>c \<in> set ''''. is_space c)" by simp
  from similarity_score_empty [OF a] similarity_score_empty [OF b] show ?thesis
    by (intro conjI)
qed

text \<open>
  Claim C8, as amended. For every title and every content longer than 3000 characters
  whose first 3000 characters are not all whitespace, the similarity scorer gives the
  content and its first 3000 characters the same score, with the same calls of the
  embedder. The embedder is a function of the text, so it is deterministic.
\<close>

theorem similarity_score_truncation:
  assumes "3000 < length content"
    and "\<not> (\<forall>c \<in> set (take 3000 content). is_space c)"
  shows "similarity_score env title content
           = similarity_score env title (take 3000 content)"
proof -
  from assms(2) have "\<not> (\<forall>c \<in> set content. is_space c)"
    by (meson in_set_takeD)
  then have "similarity_score env title content =
       (py_round (fl (cos_sim env (encode env title) (encode env (take 3000 content)) * 100)) 2,
        [Encode title, Encode (take 3000 content)])"
    by (rule similarity_score_text)
  moreover from assms(2) have "similarity_score env title (take 3000 content) =
       (py_round (fl (cos_sim env (encode env title)
                        (encode env (take 3000 (take 3000 content))) * 100)) 2,
        [Encode title, Encode (take 3000 (take 3000 content))])"
    by (rule similarity_score_text)
  ultimately show ?thesis by simp
qed

theorem similarity_score_truncation_witness:
  "3000 < length (''x'' @ replicate 3000 CHR '' '')
   \<and> similarity_score (test_env None None 1 (1 / 2)) ''t'' (''x'' @ replicate 3000 CHR '' '')
       = similarity_score (test_env None None 1 (1 / 2)) ''t''
           (take 3000 (''x'' @ replicate 3000 CHR '' ''))
   \<and> similarity_score (test_env None None 1 (1 / 2)) ''t''
           (take 3000 (''x'' @ replicate 3000 CHR '' ''))
       = (50, [Encode ''t'', Encode (''x'' @ replicate 2999 CHR '' '')])"
proof -
  have l: "3000 < length (''x'' @ replicate 3000 CHR '' '')" by simp
  have t: "take 3000 (''x'' @ replicate 3000 CHR '' '') = ''x'' @ replicate 2999 CHR '' ''"
    by simp
  have n: "\<not> (\<forall>c \<in> set (take 3000 (''x'' @ replicate 3000 CHR '' '')). is_space c)"
    unfolding t by (simp add: is_space_def)
  have v: "similarity_score (test_env None None 1 (1 / 2)) ''t''
           (take 3000 (''x'' @ replicate 3000 CHR '' ''))
       = (50, [Encode ''t'', Encode (''x'' @ replicate 2999 CHR '' '')])"
    unfolding similarity_score_text [OF n] unfolding t
    by (simp add: test_env_def half_cosine)
  from l similarity_score_truncation [OF l n] v show ?thesis
    by (intro conjI)
qed

text \<open>
  The claim as stated, for every content longer than 3000 characters that is not
  whitespace only, fails: the scorer tests for whitespace before it truncates. A content
  of 3000 blanks followed by a letter is embedded (as its 3000 blanks) and scored from
  the cosine, here 50, while its first 3000 characters alone score 0 without a call.
\<close>

theorem similarity_score_truncation_counterexample:
  "3000 < length (replicate 3000 CHR '' '' @ ''x'')
   \<and> py_strip (replicate 3000 CHR '' '' @ ''x'') \<noteq> []
   \<and> similarity_score (test_env None None 1 (1 / 2)) ''t'' (replicate 3000 CHR '' '' @ ''x'')
       = (50, [Encode ''t'', Encode (replicate 3000 CHR '' '')])
   \<and> similarity_score (test_env None None 1 (1 / 2)) ''t''
         (take 3000 (replicate 3000 CHR '' '' @ ''x''))
       = (0, [])"
proof -
  have l: "3000 < length (replicate 3000 CHR '' '' @ ''x'')" by simp
  have t: "take 3000 (replicate 3000 CHR '' '' @ ''x'') = replicate 3000 CHR '' ''"
    by simp
  have n: "\<not> (\<forall>c \<in> set (replicate 3000 CHR '' '' @ ''x''). is_space c)"
    by (simp add: is_space_def)
  then have s: "py_strip (replicate 3000 CHR '' '' @ ''x'') \<noteq> []"
    by (simp only: py_strip_Nil_iff not_False_eq_True)
  have a: "similarity_score (test_env None None 1 (1 / 2)) ''t'' (replicate 3000 CHR '' '' @ ''x'')
       = (50, [Encode ''t'', Encode (replicate 3000 CHR '' '')])"
    unfolding similarity_score_text [OF n] unfolding t
    by (simp add: test_env_def half_cosine)
  have "\<forall>c \<in> set (replicate 3000 CHR '' ''). is_space c"
    by (simp add: is_space_blank)
  then have b: "similarity_score (test_env None None 1 (1 / 2)) ''t''
         (take 3000 (replicate 3000 CHR '' '' @ ''x'')) = (0, [])"
    unfolding t by (rule similarity_score_blank)
  from l s a b show ?thesis
    by (intro conjI)
qed

section \<open>Degraded mode\<close>

lemma run_plain:
  "predict (test_env plain_info None (8 / 10) (2 / 10)) demo_url =
     (Scores \<lparr> r_title = ''plain title'', r_ai_score = 80, r_rule_score = 0,
               r_similarity_score = 0, r_transcript_used = False, r_final_score = 48,
               r_risk_level = ''Medium'', r_clickbait = False \<rparr>,
      [Extract_info demo_url, Fetch_transcript ''abc123'', Classify ''plain title''])"
  by code_simp

lemma extract_id_demo_url: "extract_id demo_url = Some ''abc123''"
  by code_simp

text \<open>
  Claim C10. When the identifier and a non-empty title are there and the transcript is
  absent, the endpoint still computes the similarity score, of the title against the
  description followed by one blank and the empty string, and returns it in the
  \<^verbatim>\<open>similarity_score\<close> field of a response whose \<^verbatim>\<open>transcript_used\<close> is
  false. When the description is absent or empty as well, that field is 0.
\<close>

theorem degraded_similarity:
  assumes "extract_id url = Some video_id"
    and "ydl_extract_info env url = Some info"
    and "info_title info = Some title"
    and "title \<noteq> []"
    and "transcript_fetch env video_id = None"
  shows "\<exists>r calls. predict env url = (Scores r, calls)
           \<and> \<not> r_transcript_used r
           \<and> r_similarity_score r =
               fst (similarity_score env title
                      ((case info_description info of Some d \<Rightarrow> d | None \<Rightarrow> []) @ '' '' @ []))
           \<and> (info_description info = None \<or> info_description info = Some []
                \<longrightarrow> r_similarity_score r = 0)"
proof -
  let ?text = "(case info_description info of Some d \<Rightarrow> d | None \<Rightarrow> []) @ '' '' @ []"
  have full: "\<And>x :: string option.
      (case x of Some d \<Rightarrow> if d = [] then [] else d | None \<Rightarrow> [])
        = (case x of Some d \<Rightarrow> d | None \<Rightarrow> [])"
    by (simp split: option.splits)
  have blank: "info_description info = None \<or> info_description info = Some []
                 \<Longrightarrow> fst (similarity_score env title ?text) = 0"
    by (auto simp: similarity_score_blank is_space_blank)
  have v: "extract_id url = Some video_id" "video_id \<noteq> []"
    using assms(1) by (simp_all add: extract_id_nonempty)
  obtain s cs where sim: "similarity_score env title ?text = (s, cs)"
    by (cases "similarity_score env title ?text")
  have "predict env url =
          (Scores \<lparr> r_title = title,
                    r_ai_score = py_round (fl (classifier_score env title * 100)) 2,
                    r_rule_score = rule_score env title,
                    r_similarity_score = s, r_transcript_used = False,
                    r_final_score =
                      final_score False (py_round (fl (classifier_score env title * 100)) 2)
                        (rule_score env title) s,
                    r_risk_level =
                      risk_level (final_score False
                        (py_round (fl (classifier_score env title * 100)) 2)
                        (rule_score env title) s),
                    r_clickbait =
                      (55 \<le> final_score False (py_round (fl (classifier_score env title * 100)) 2)
                        (rule_score env title) s) \<rparr>,
           [Extract_info url, Fetch_transcript video_id, Classify title] @ cs)"
    using assms(2-5) v sim
    by (simp add: predict_def get_video_info_def score_video_def get_transcript_def full
          Let_def)
  with sim blank show ?thesis
    by auto
qed

theorem degraded_similarity_witness:
  "predict (test_env loud_info None (8 / 10) (2 / 10)) demo_url =
     (Scores \<lparr> r_title = loud_title, r_ai_score = 80, r_rule_score = 40,
               r_similarity_score = 20, r_transcript_used = False, r_final_score = 64,
               r_risk_level = ''High'', r_clickbait = True \<rparr>,
      [Extract_info demo_url, Fetch_transcript ''abc123'', Classify loud_title,
       Encode loud_title, Encode ''desc ''])
   \<and> fst (similarity_score (test_env loud_info None (8 / 10) (2 / 10)) loud_title
            (''desc'' @ '' '' @ [])) = 20
   \<and> predict (test_env plain_info None (8 / 10) (2 / 10)) demo_url =
     (Scores \<lparr> r_title = ''plain title'', r_ai_score = 80, r_rule_score = 0,
               r_similarity_score = 0, r_transcript_used = False, r_final_score = 48,
               r_risk_level = ''Medium'', r_clickbait = False \<rparr>,
      [Extract_info demo_url, Fetch_transcript ''abc123'', Classify ''plain title''])"
proof -
  have e: "ydl_extract_info (test_env loud_info None (8 / 10) (2 / 10)) demo_url
             = Some \<lparr> info_title = Some loud_title, info_description = Some ''desc'' \<rparr>"
    by (simp add: test_env_def loud_info_def)
  have t: "info_title \<lparr> info_title = Some loud_title, info_description = Some ''desc'' \<rparr>
             = Some loud_title"
    by simp
  have n: "loud_title \<noteq> []"
    by (simp add: loud_title_def)
  have f: "transcript_fetch (test_env loud_info None (8 / 10) (2 / 10)) ''abc123'' = None"
    by (simp add: test_env_def)
  from degraded_similarity [OF extract_id_demo_url e t n f] run_degraded
  have "fst (similarity_score (test_env loud_info None (8 / 10) (2 / 10)) loud_title
            (''desc'' @ '' '' @ [])) = 20"
    by auto
  with run_degraded run_plain show ?thesis
    by (intro conjI)
qed

end
